theory Spec2Isabelle
  imports Main
begin

section \<open>The controller event monitor (pycontroller.py)\<close>

text \<open>
  The script is one module: it initialises pygame, evaluates a stray bare name, asks for
  the number of joysticks, and either reports that there is none or binds joystick 0 and
  polls the event queue for ever inside a try statement that catches KeyboardInterrupt and
  calls pygame.quit in its finally clause.

  Everything the script does is a call into pygame or a print, so a run is the list of
  those calls in order (the trace) together with how the run ended. The device list, the
  event batches handed out by the successive calls of pygame.event.get, and the moment an
  interruption (SIGINT) arrives are inputs.
\<close>

subsection \<open>Events, exceptions, observable actions\<close>

text \<open>
  An event as the dispatch of lines 17 to 30 sees it: its kind, with the attributes the
  script reads. The axis value is a Python float; its type is left open (\<open>'f\<close>) and the
  text Python prints for it is a parameter \<open>fmt\<close> of every function that prints one.
  \<open>OtherEvent\<close> carries the type code of any kind other than the three named ones.
\<close>

datatype 'f event =
    JOYAXISMOTION int 'f
  | JOYBUTTONDOWN int
  | JOYBUTTONUP int
  | OtherEvent nat

datatype exn = NameError string | PygameError | KeyboardInterrupt

datatype action =
    PygameInit
  | JoystickInit
  | GetCount
  | Joystick nat
  | JoystickObjInit
  | GetName
  | Print string
  | EventGet
  | PygameQuit

text \<open>
  How a piece of the script ends: it completes with a value, it raises, or it is still
  inside the polling loop when the observed batches are used up.
\<close>

datatype 'a res = Return 'a | Raise exn | Running

text \<open>
  The state of a run: the calls made so far, and the interruption still to come.
  \<open>pending = Some k\<close> says that k more steps complete and KeyboardInterrupt is raised at
  the step after them; \<open>None\<close> says that no interruption arrives. One interruption is
  delivered per run.
\<close>

record state =
  trace :: "action list"
  pending :: "nat option"

type_synonym 'a prog = "state \<Rightarrow> 'a res \<times> state"

text \<open>The connected devices by index (their reported names) and the polled batches.\<close>

record 'f world =
  devices :: "string list"
  batches :: "'f event list list"

definition start :: "nat option \<Rightarrow> state" where
  "start p = \<lparr>trace = [], pending = p\<rparr>"

subsection \<open>Sequencing, steps, try statements\<close>

definition ret :: "'a \<Rightarrow> 'a prog" where
  "ret x s = (Return x, s)"

definition and_then :: "'a prog \<Rightarrow> ('a \<Rightarrow> 'b prog) \<Rightarrow> 'b prog" where
  "and_then m f s =
     (case m s of
        (Return x, s') \<Rightarrow> f x s'
      | (Raise e, s') \<Rightarrow> (Raise e, s')
      | (Running, s') \<Rightarrow> (Running, s'))"

text \<open>
  The point at the start of a step where a pending interruption is delivered. CPython
  raises \<open>KeyboardInterrupt\<close> in the main thread at the statement that is executing
  when the signal is handled; the step that is cut short is not recorded in the trace.
\<close>

definition checkpoint :: "unit prog" where
  "checkpoint s =
     (case pending s of
        None \<Rightarrow> (Return (), s)
      | Some 0 \<Rightarrow> (Raise KeyboardInterrupt, s\<lparr>pending := None\<rparr>)
      | Some (Suc k) \<Rightarrow> (Return (), s\<lparr>pending := Some k\<rparr>))"

definition emit :: "action \<Rightarrow> unit prog" where
  "emit a s = (Return (), s\<lparr>trace := trace s @ [a]\<rparr>)"

text \<open>A call into pygame, or a print: one step, recorded in the trace.\<close>

definition prim :: "action \<Rightarrow> unit prog" where
  "prim a = and_then checkpoint (\<lambda>_. emit a)"

definition print :: "string \<Rightarrow> unit prog" where
  "print line = prim (Print line)"

text \<open>
  \<open>try: body except E: handler\<close> and \<open>try: body finally: fin\<close>. A body that is
  still running has not left the try statement, so neither clause has run.
\<close>

definition try_except :: "'a prog \<Rightarrow> (exn \<Rightarrow> bool) \<Rightarrow> 'a prog \<Rightarrow> 'a prog" where
  "try_except body caught handler s =
     (case body s of
        (Raise e, s') \<Rightarrow> (if caught e then handler s' else (Raise e, s'))
      | (Return x, s') \<Rightarrow> (Return x, s')
      | (Running, s') \<Rightarrow> (Running, s'))"

definition try_finally :: "'a prog \<Rightarrow> unit prog \<Rightarrow> 'a prog" where
  "try_finally body fin s =
     (case body s of
        (Running, s') \<Rightarrow> (Running, s')
      | (Return x, s') \<Rightarrow>
          (case fin s' of
             (Return _, s'') \<Rightarrow> (Return x, s'')
           | (Raise e', s'') \<Rightarrow> (Raise e', s'')
           | (Running, s'') \<Rightarrow> (Running, s''))
      | (Raise e, s') \<Rightarrow>
          (case fin s' of
             (Return _, s'') \<Rightarrow> (Raise e, s'')
           | (Raise e', s'') \<Rightarrow> (Raise e', s'')
           | (Running, s'') \<Rightarrow> (Running, s'')))"

subsection \<open>Name lookup\<close>

text \<open>
  The names a module-level load can resolve at line 5: the module's own globals (the
  attributes every script module has, and \<open>pygame\<close>, bound by the import of line 1),
  then the builtins of CPython 3.
\<close>

definition module_globals :: "string list" where
  "module_globals =
     [''__name__'', ''__doc__'', ''__package__'', ''__loader__'', ''__spec__'',
      ''__annotations__'', ''__builtins__'', ''__file__'', ''__cached__'', ''pygame'']"

definition builtin_names :: "string list" where
  "builtin_names =
     [''ArithmeticError'', ''AssertionError'', ''AttributeError'', ''BaseException'',
      ''BaseExceptionGroup'', ''BlockingIOError'', ''BrokenPipeError'', ''BufferError'',
      ''BytesWarning'', ''ChildProcessError'', ''ConnectionAbortedError'',
      ''ConnectionError'', ''ConnectionRefusedError'', ''ConnectionResetError'',
      ''DeprecationWarning'', ''EOFError'', ''Ellipsis'', ''EncodingWarning'',
      ''EnvironmentError'', ''Exception'', ''ExceptionGroup'', ''False'',
      ''FileExistsError'', ''FileNotFoundError'', ''FloatingPointError'',
      ''FutureWarning'', ''GeneratorExit'', ''IOError'', ''ImportError'',
      ''ImportWarning'', ''IndentationError'', ''IndexError'', ''InterruptedError'',
      ''IsADirectoryError'', ''KeyError'', ''KeyboardInterrupt'', ''LookupError'',
      ''MemoryError'', ''ModuleNotFoundError'', ''NameError'', ''None'',
      ''NotADirectoryError'', ''NotImplemented'', ''NotImplementedError'', ''OSError'',
      ''OverflowError'', ''PendingDeprecationWarning'', ''PermissionError'',
      ''ProcessLookupError'', ''RecursionError'', ''ReferenceError'',
      ''ResourceWarning'', ''RuntimeError'', ''RuntimeWarning'',
      ''StopAsyncIteration'', ''StopIteration'', ''SyntaxError'', ''SyntaxWarning'',
      ''SystemError'', ''SystemExit'', ''TabError'', ''TimeoutError'', ''True'',
      ''TypeError'', ''UnboundLocalError'', ''UnicodeDecodeError'',
      ''UnicodeEncodeError'', ''UnicodeError'', ''UnicodeTranslateError'',
      ''UnicodeWarning'', ''UserWarning'', ''ValueError'', ''Warning'',
      ''ZeroDivisionError'', ''__build_class__'', ''__debug__'', ''__doc__'',
      ''__import__'', ''__loader__'', ''__name__'', ''__package__'', ''__spec__'',
      ''abs'', ''aiter'', ''all'', ''anext'', ''any'', ''ascii'', ''bin'', ''bool'',
      ''breakpoint'', ''bytearray'', ''bytes'', ''callable'', ''chr'', ''classmethod'',
      ''compile'', ''complex'', ''copyright'', ''credits'', ''delattr'', ''dict'',
      ''dir'', ''divmod'', ''enumerate'', ''eval'', ''exec'', ''exit'', ''filter'',
      ''float'', ''format'', ''frozenset'', ''getattr'', ''globals'', ''hasattr'',
      ''hash'', ''help'', ''hex'', ''id'', ''input'', ''int'', ''isinstance'',
      ''issubclass'', ''iter'', ''len'', ''license'', ''list'', ''locals'', ''map'',
      ''max'', ''memoryview'', ''min'', ''next'', ''object'', ''oct'', ''open'',
      ''ord'', ''pow'', ''print'', ''property'', ''quit'', ''range'', ''repr'',
      ''reversed'', ''round'', ''set'', ''setattr'', ''slice'', ''sorted'',
      ''staticmethod'', ''str'', ''sum'', ''super'', ''tuple'', ''type'', ''vars'',
      ''zip'']"

text \<open>
  An expression statement that is a bare name: one step, which loads the name and
  discards the value, or raises NameError when the name is bound nowhere.
\<close>

definition load_name :: "string \<Rightarrow> unit prog" where
  "load_name x =
     and_then checkpoint
       (\<lambda>_ s. if x \<in> set (module_globals @ builtin_names)
              then (Return (), s) else (Raise (NameError x), s))"

subsection \<open>Text of integers\<close>

text \<open>What an f-string writes for an int: decimal digits, with a minus sign below zero.\<close>

definition digit :: "nat \<Rightarrow> char" where
  "digit d = ''0123456789'' ! d"

fun str_nat :: "nat \<Rightarrow> string" where
  "str_nat n = (if n < 10 then [digit n] else str_nat (n div 10) @ [digit (n mod 10)])"

definition str_int :: "int \<Rightarrow> string" where
  "str_int i = (if i < 0 then CHR ''-'' # str_nat (nat (- i)) else str_nat (nat i))"

subsection \<open>The calls into pygame that return a value\<close>

definition get_count :: "'f world \<Rightarrow> nat prog" where
  "get_count w = and_then (prim GetCount) (\<lambda>_. ret (length (devices w)))"

text \<open>\<open>pygame.joystick.Joystick(i)\<close> raises pygame.error for an index with no device.\<close>

definition Joystick_new :: "'f world \<Rightarrow> nat \<Rightarrow> nat prog" where
  "Joystick_new w i =
     and_then (prim (Joystick i))
       (\<lambda>_ s. if i < length (devices w) then (Return i, s) else (Raise PygameError, s))"

definition get_name :: "'f world \<Rightarrow> nat \<Rightarrow> string prog" where
  "get_name w j =
     and_then (prim GetName)
       (\<lambda>_ s. if j < length (devices w) then (Return (devices w ! j), s)
              else (Raise PygameError, s))"

definition event_get :: "'f event list \<Rightarrow> 'f event list prog" where
  "event_get b = and_then (prim EventGet) (\<lambda>_. ret b)"

subsection \<open>The script, block by block\<close>

text \<open>Lines 17 to 30: the dispatch on the kind of one event.\<close>

fun handle_event :: "('f \<Rightarrow> string) \<Rightarrow> 'f event \<Rightarrow> unit prog" where
  "handle_event fmt (JOYAXISMOTION a v) =
     print (''Axis '' @ str_int a @ '' moved to '' @ fmt v)"
| "handle_event fmt (JOYBUTTONDOWN b) = print (''Button '' @ str_int b @ '' pressed'')"
| "handle_event fmt (JOYBUTTONUP b) = print (''Button '' @ str_int b @ '' released'')"
| "handle_event fmt (OtherEvent t) = print ''Waiting''"

text \<open>Line 16: the for loop over one batch.\<close>

fun for_events :: "('f \<Rightarrow> string) \<Rightarrow> 'f event list \<Rightarrow> unit prog" where
  "for_events fmt [] = ret ()"
| "for_events fmt (e # es) = and_then (handle_event fmt e) (\<lambda>_. for_events fmt es)"

text \<open>
  Line 15: \<open>while True\<close>. Each iteration polls once and handles the batch it got. The
  list holds the batches of the polls that are observed; there is no branch that leaves
  the loop, so when the list is used up the loop is still running.
\<close>

fun while_true :: "('f \<Rightarrow> string) \<Rightarrow> 'f event list list \<Rightarrow> unit prog" where
  "while_true fmt [] = (\<lambda>s. (Running, s))"
| "while_true fmt (b # bs) =
     and_then (event_get b)
       (\<lambda>events. and_then (for_events fmt events) (\<lambda>_. while_true fmt bs))"

text \<open>Lines 14 to 35: the try statement around the loop.\<close>

definition monitor :: "('f \<Rightarrow> string) \<Rightarrow> 'f event list list \<Rightarrow> unit prog" where
  "monitor fmt bs =
     try_finally
       (try_except (while_true fmt bs) (\<lambda>e. e = KeyboardInterrupt) (print ''Exiting.''))
       (prim PygameQuit)"

text \<open>Lines 10 to 35: the else branch.\<close>

definition connected :: "('f \<Rightarrow> string) \<Rightarrow> 'f world \<Rightarrow> unit prog" where
  "connected fmt w =
     and_then (Joystick_new w 0) (\<lambda>joystick.
     and_then (prim JoystickObjInit) (\<lambda>_.
     and_then (get_name w joystick) (\<lambda>n.
     and_then (print (''Connected controller: '' @ n)) (\<lambda>_.
     monitor fmt (batches w)))))"

text \<open>Lines 7 to 35: the check of the device count.\<close>

definition device_check :: "('f \<Rightarrow> string) \<Rightarrow> 'f world \<Rightarrow> unit prog" where
  "device_check fmt w =
     and_then (get_count w) (\<lambda>n.
       if n = 0 then print ''No joystick found.'' else connected fmt w)"

text \<open>Lines 3 to 35: the module.\<close>

definition program :: "('f \<Rightarrow> string) \<Rightarrow> 'f world \<Rightarrow> unit prog" where
  "program fmt w =
     and_then (prim PygameInit) (\<lambda>_.
     and_then (prim JoystickInit) (\<lambda>_.
     and_then (load_name ''c'') (\<lambda>_.
     device_check fmt w)))"

subsection \<open>Reading a trace\<close>

fun printed :: "action list \<Rightarrow> string list" where
  "printed [] = []"
| "printed (Print l # as) = l # printed as"
| "printed (a # as) = printed as"

subsection \<open>The steps a block takes, as a list\<close>

text \<open>
  The blocks above are straight-line sequences of steps once the branch is chosen. The
  definitions below name those sequences, for the lemmas that follow: \<open>perform\<close> takes
  the steps of a list in order, \<open>message\<close> is the line the dispatch prints for an
  event, and \<open>loop_actions\<close> lists the steps of the loop on given batches.
\<close>

fun perform :: "action list \<Rightarrow> unit prog" where
  "perform [] = ret ()"
| "perform (a # as) = and_then (prim a) (\<lambda>_. perform as)"

fun message :: "('f \<Rightarrow> string) \<Rightarrow> 'f event \<Rightarrow> string" where
  "message fmt (JOYAXISMOTION a v) = ''Axis '' @ str_int a @ '' moved to '' @ fmt v"
| "message fmt (JOYBUTTONDOWN b) = ''Button '' @ str_int b @ '' pressed''"
| "message fmt (JOYBUTTONUP b) = ''Button '' @ str_int b @ '' released''"
| "message fmt (OtherEvent t) = ''Waiting''"

definition iteration :: "('f \<Rightarrow> string) \<Rightarrow> 'f event list \<Rightarrow> action list" where
  "iteration fmt b = EventGet # map (\<lambda>e. Print (message fmt e)) b"

definition startup_actions :: "'f world \<Rightarrow> action list" where
  "startup_actions w =
     [Joystick 0, JoystickObjInit, GetName, Print (''Connected controller: '' @ devices w ! 0)]"

definition loop_actions :: "('f \<Rightarrow> string) \<Rightarrow> 'f event list list \<Rightarrow> action list" where
  "loop_actions fmt bs = concat (map (iteration fmt) bs)"

section \<open>Lemmas about the blocks\<close>

subsection \<open>Sequencing and single steps\<close>

lemma and_then_assoc: "and_then (and_then m f) g = and_then m (\<lambda>x. and_then (f x) g)"
  by (rule ext) (simp add: and_then_def split: prod.splits res.splits)

lemma ret_and_then [simp]: "and_then (ret x) f = f x"
  by (rule ext) (simp add: and_then_def ret_def)

lemma and_then_ret [simp]: "and_then m ret = m"
  by (rule ext) (simp add: and_then_def ret_def split: prod.splits res.splits)

lemma prim_None: "pending s = None \<Longrightarrow> prim a s = (Return (), s\<lparr>trace := trace s @ [a]\<rparr>)"
  by (simp add: prim_def and_then_def checkpoint_def emit_def)

lemma prim_Zero: "pending s = Some 0 \<Longrightarrow> prim a s = (Raise KeyboardInterrupt, s\<lparr>pending := None\<rparr>)"
  by (simp add: prim_def and_then_def checkpoint_def emit_def)

lemma prim_Suc: "pending s = Some (Suc k) \<Longrightarrow>
    prim a s = (Return (), s\<lparr>trace := trace s @ [a], pending := Some k\<rparr>)"
  by (simp add: prim_def and_then_def checkpoint_def emit_def)

lemma perform_None:
  "pending s = None \<Longrightarrow> perform as s = (Return (), s\<lparr>trace := trace s @ as\<rparr>)"
  by (induction as arbitrary: s) (simp_all add: ret_def and_then_def prim_None)

lemma perform_Some:
  "pending s = Some k \<Longrightarrow> perform as s =
     (if k < length as
      then (Raise KeyboardInterrupt, s\<lparr>trace := trace s @ take k as, pending := None\<rparr>)
      else (Return (), s\<lparr>trace := trace s @ as, pending := Some (k - length as)\<rparr>))"
proof (induction as arbitrary: s k)
  case Nil
  then show ?case by (simp add: ret_def)
next
  case (Cons a as)
  show ?case
  proof (cases k)
    case 0
    with Cons.prems show ?thesis by (simp add: and_then_def prim_Zero)
  next
    case (Suc j)
    with Cons.prems have p: "prim a s = (Return (), s\<lparr>trace := trace s @ [a], pending := Some j\<rparr>)"
      by (simp add: prim_Suc)
    have "pending (s\<lparr>trace := trace s @ [a], pending := Some j\<rparr>) = Some j" by simp
    from Cons.IH [OF this] p Suc show ?thesis
      by (simp add: and_then_def)
  qed
qed

lemma perform_append: "perform (as @ bs) = and_then (perform as) (\<lambda>_. perform bs)"
  by (induction as) (simp_all add: and_then_assoc)

lemma handle_event_message: "handle_event fmt e = perform [Print (message fmt e)]"
  by (cases e) (simp_all add: print_def)

lemma for_events_perform: "for_events fmt es = perform (map (\<lambda>e. Print (message fmt e)) es)"
  by (induction es) (simp_all add: handle_event_message and_then_assoc)

lemma event_get_perform: "and_then (event_get b) f = and_then (perform [EventGet]) (\<lambda>_. f b)"
  by (simp add: event_get_def and_then_assoc)

lemma while_true_perform:
  "while_true fmt bs = and_then (perform (loop_actions fmt bs)) (\<lambda>_ s. (Running, s))"
proof (induction bs)
  case Nil
  show ?case by (simp add: loop_actions_def)
next
  case (Cons b bs)
  have "loop_actions fmt (b # bs) = [EventGet] @ map (\<lambda>e. Print (message fmt e)) b @ loop_actions fmt bs"
    by (simp add: loop_actions_def iteration_def)
  then show ?case
    by (simp only: perform_append while_true.simps event_get_perform for_events_perform Cons.IH and_then_assoc)
qed

lemma c_unbound: "''c'' \<notin> set (module_globals @ builtin_names)"
  by (simp add: module_globals_def builtin_names_def)

lemma load_name_c_None:
  "pending s = None \<Longrightarrow> load_name ''c'' s = (Raise (NameError ''c''), s)"
  using c_unbound by (simp add: load_name_def and_then_def checkpoint_def)

lemma load_name_c_Zero:
  "pending s = Some 0 \<Longrightarrow> load_name ''c'' s = (Raise KeyboardInterrupt, s\<lparr>pending := None\<rparr>)"
  by (simp add: load_name_def and_then_def checkpoint_def)

lemma load_name_c_Suc:
  "pending s = Some (Suc k) \<Longrightarrow> load_name ''c'' s = (Raise (NameError ''c''), s\<lparr>pending := Some k\<rparr>)"
  using c_unbound by (simp add: load_name_def and_then_def checkpoint_def)

lemma program_None:
  "program fmt w (start None) =
     (Raise (NameError ''c''), \<lparr>trace = [PygameInit, JoystickInit], pending = None\<rparr>)"
  by (simp add: program_def start_def and_then_def prim_None load_name_c_None)

lemma program_late:
  "program fmt w (start (Some (n + 3))) =
     (Raise (NameError ''c''), \<lparr>trace = [PygameInit, JoystickInit], pending = Some n\<rparr>)"
  by (simp add: program_def start_def and_then_def prim_Suc load_name_c_Suc numeral_3_eq_3)

lemma program_cases:
  "program fmt w (start p) \<in>
     {(Raise (NameError ''c''), \<lparr>trace = [PygameInit, JoystickInit], pending = None\<rparr>),
      (Raise (NameError ''c''), \<lparr>trace = [PygameInit, JoystickInit], pending = Some (the p - 3)\<rparr>),
      (Raise KeyboardInterrupt, \<lparr>trace = [], pending = None\<rparr>),
      (Raise KeyboardInterrupt, \<lparr>trace = [PygameInit], pending = None\<rparr>),
      (Raise KeyboardInterrupt, \<lparr>trace = [PygameInit, JoystickInit], pending = None\<rparr>)}"
proof (cases p)
  case None
  then show ?thesis using program_None [of fmt w] by simp
next
  case (Some k)
  consider "k = 0" | "k = 1" | "k = 2" | n where "k = n + 3"
    by atomize_elim presburger
  then show ?thesis
  proof cases
    case 1
    with Some show ?thesis by (simp add: program_def start_def and_then_def prim_Zero)
  next
    case 2
    with Some show ?thesis by (simp add: program_def start_def and_then_def prim_Zero prim_Suc)
  next
    case 3
    with Some show ?thesis
      by (simp add: program_def start_def and_then_def prim_Suc load_name_c_Zero numeral_2_eq_2)
  next
    case 4
    with Some show ?thesis using program_late [of fmt w n] by simp
  qed
qed


lemma while_true_None:
  "pending s = None \<Longrightarrow>
     while_true fmt bs s = (Running, s\<lparr>trace := trace s @ loop_actions fmt bs\<rparr>)"
  by (simp add: while_true_perform and_then_def perform_None)

lemma while_true_Some:
  "pending s = Some k \<Longrightarrow> while_true fmt bs s =
     (if k < length (loop_actions fmt bs)
      then (Raise KeyboardInterrupt,
            s\<lparr>trace := trace s @ take k (loop_actions fmt bs), pending := None\<rparr>)
      else (Running, s\<lparr>trace := trace s @ loop_actions fmt bs,
                       pending := Some (k - length (loop_actions fmt bs))\<rparr>))"
  by (simp add: while_true_perform and_then_def perform_Some)

lemma monitor_None:
  "pending s = None \<Longrightarrow>
     monitor fmt bs s = (Running, s\<lparr>trace := trace s @ loop_actions fmt bs\<rparr>)"
  by (simp add: monitor_def try_finally_def try_except_def while_true_None)

lemma monitor_Some:
  "pending s = Some k \<Longrightarrow> monitor fmt bs s =
     (if k < length (loop_actions fmt bs)
      then (Return (),
            s\<lparr>trace := trace s @ take k (loop_actions fmt bs) @ [Print ''Exiting.'', PygameQuit],
              pending := None\<rparr>)
      else (Running, s\<lparr>trace := trace s @ loop_actions fmt bs,
                       pending := Some (k - length (loop_actions fmt bs))\<rparr>))"
  by (simp add: monitor_def try_finally_def try_except_def while_true_Some print_def prim_None)

lemma length_loop_actions: "length (loop_actions fmt bs) = length bs + length (concat bs)"
  by (induction bs) (simp_all add: loop_actions_def iteration_def)

lemma message_not_Exiting: "message fmt e \<noteq> ''Exiting.''" "''Exiting.'' \<noteq> message fmt e"
  by (cases e; simp)+

lemma loop_actions_no_Exiting: "Print ''Exiting.'' \<notin> set (loop_actions fmt bs)"
  by (auto simp: loop_actions_def iteration_def message_not_Exiting)

lemma loop_actions_no_Quit: "PygameQuit \<notin> set (loop_actions fmt bs)"
  by (auto simp: loop_actions_def iteration_def)

lemma count_EventGet: "count_list (loop_actions fmt bs) EventGet = length bs"
proof -
  have "count_list (map (\<lambda>e. Print (message fmt e)) b) EventGet = 0" for b :: "'a event list"
    by (induction b) simp_all
  then show ?thesis
    by (induction bs) (simp_all add: loop_actions_def iteration_def)
qed

lemma printed_loop_actions: "printed (loop_actions fmt bs) = map (message fmt) (concat bs)"
proof -
  have a: "printed (as @ cs) = printed as @ printed cs" for as cs
    by (induction as rule: printed.induct) simp_all
  have b: "printed (map (\<lambda>e. Print (message fmt e)) es) = map (message fmt) es" for es
    by (induction es) simp_all
  show ?thesis
    by (induction bs) (simp_all add: loop_actions_def iteration_def a b)
qed

lemma loop_actions_snoc:
  "loop_actions fmt (bs @ [es @ [e]]) = loop_actions fmt (bs @ [es]) @ [Print (message fmt e)]"
  by (simp add: loop_actions_def iteration_def)

lemma ret_Pair: "ret x = Pair (Return x)"
  by (rule ext) (simp add: ret_def)

lemma device_check_zero:
  "devices w = [] \<Longrightarrow> device_check fmt w = perform [GetCount, Print ''No joystick found.'']"
  by (simp add: device_check_def get_count_def and_then_assoc print_def)

lemma connected_perform:
  assumes "devices w \<noteq> []"
  shows "connected fmt w = and_then (perform (startup_actions w)) (\<lambda>_. monitor fmt (batches w))"
proof -
  from assms have "0 < length (devices w)" by simp
  then have j: "Joystick_new w 0 = and_then (prim (Joystick 0)) (\<lambda>_. ret 0)"
    and n: "get_name w 0 = and_then (prim GetName) (\<lambda>_. ret (devices w ! 0))"
    by (simp_all add: Joystick_new_def get_name_def ret_Pair)
  show ?thesis
    by (simp add: connected_def j n startup_actions_def and_then_assoc print_def)
qed

lemma device_check_some:
  assumes "devices w \<noteq> []"
  shows "device_check fmt w =
           and_then (perform (GetCount # startup_actions w)) (\<lambda>_. monitor fmt (batches w))"
  using assms by (simp add: device_check_def get_count_def and_then_assoc connected_perform)

lemma device_check_zero_None:
  assumes "devices w = []" and "pending s = None"
  shows "device_check fmt w s =
           (Return (), s\<lparr>trace := trace s @ [GetCount, Print ''No joystick found.'']\<rparr>)"
  using assms by (simp add: device_check_zero perform_None del: perform.simps)

lemma device_check_zero_Some:
  assumes "devices w = []" and "pending s = Some k"
  shows "device_check fmt w s =
           (if k < 2
            then (Raise KeyboardInterrupt,
                  s\<lparr>trace := trace s @ take k [GetCount, Print ''No joystick found.''],
                    pending := None\<rparr>)
            else (Return (), s\<lparr>trace := trace s @ [GetCount, Print ''No joystick found.''],
                              pending := Some (k - 2)\<rparr>))"
  using assms by (simp add: device_check_zero perform_Some del: perform.simps)

lemma length_startup_actions: "length (startup_actions w) = 4"
  by (simp add: startup_actions_def)

lemma device_check_some_None:
  assumes "devices w \<noteq> []" and "pending s = None"
  shows "device_check fmt w s =
           (Running, s\<lparr>trace := trace s @ GetCount # startup_actions w
                                 @ loop_actions fmt (batches w)\<rparr>)"
  using assms
  by (simp add: device_check_some and_then_def perform_None monitor_None del: perform.simps)

lemma device_check_some_early:
  assumes "devices w \<noteq> []" and "pending s = Some k" and "k < 5"
  shows "device_check fmt w s =
           (Raise KeyboardInterrupt,
            s\<lparr>trace := trace s @ take k (GetCount # startup_actions w), pending := None\<rparr>)"
  using assms
  by (simp add: device_check_some and_then_def perform_Some length_startup_actions
      del: perform.simps)

lemma device_check_some_late:
  assumes "devices w \<noteq> []" and "pending s = Some (5 + k)"
  shows "device_check fmt w s =
           (if k < length (loop_actions fmt (batches w))
            then (Return (),
                  s\<lparr>trace := trace s @ GetCount # startup_actions w
                            @ take k (loop_actions fmt (batches w))
                            @ [Print ''Exiting.'', PygameQuit],
                    pending := None\<rparr>)
            else (Running,
                  s\<lparr>trace := trace s @ GetCount # startup_actions w
                            @ loop_actions fmt (batches w),
                    pending := Some (k - length (loop_actions fmt (batches w)))\<rparr>))"
proof -
  let ?s = "s\<lparr>trace := trace s @ GetCount # startup_actions w, pending := Some k\<rparr>"
  from assms(2) have "perform (GetCount # startup_actions w) s = (Return (), ?s)"
    by (simp add: perform_Some length_startup_actions del: perform.simps)
  moreover have "pending ?s = Some k" by simp
  ultimately show ?thesis
    using assms(1) by (simp add: device_check_some and_then_def monitor_Some del: perform.simps)
qed

lemma startup_no_Exiting:
  "Print ''Exiting.'' \<notin> set (GetCount # startup_actions w)"
  "PygameQuit \<notin> set (GetCount # startup_actions w)"
  "EventGet \<notin> set (GetCount # startup_actions w)"
  by (simp_all add: startup_actions_def)

lemma not_in_take: "x \<notin> set xs \<Longrightarrow> x \<notin> set (take k xs)"
  by (auto dest: in_set_takeD)

section \<open>The claims\<close>

text \<open>
  A claim that names no interruption is about runs in which none arrives
  (\<open>pending = None\<close>); where the same fact holds for interrupted runs too, the
  theorem says so.
\<close>

subsection \<open>C1: the bare name of line 5 ends every run\<close>

text \<open>
  C1. Whatever the devices and the event batches, the run of the module raises
  \<open>NameError\<close> for the name \<open>c\<close> after the two initialisation calls and before
  anything else: the trace is exactly \<open>pygame.init\<close>, \<open>pygame.joystick.init\<close>.
  The same holds when an interruption is due at any later step (three or more steps
  in). For every interruption time whatever, the run ends in an unhandled exception
  (the \<open>NameError\<close>, or \<open>KeyboardInterrupt\<close> when the signal comes during the first
  three steps), the trace holds nothing but the two initialisation calls, so the count is
  never asked for and neither branch of the check is reached, and nothing is printed.
\<close>

theorem program_raises_NameError:
  "program fmt w (start None) =
     (Raise (NameError ''c''), \<lparr>trace = [PygameInit, JoystickInit], pending = None\<rparr>)
   \<and> program fmt w (start (Some (n + 3))) =
     (Raise (NameError ''c''), \<lparr>trace = [PygameInit, JoystickInit], pending = Some n\<rparr>)
   \<and> fst (program fmt w (start p)) \<in> {Raise (NameError ''c''), Raise KeyboardInterrupt}
   \<and> set (trace (snd (program fmt w (start p)))) \<subseteq> {PygameInit, JoystickInit}
   \<and> printed (trace (snd (program fmt w (start p)))) = []"
proof -
  from program_cases [of fmt w p]
  have "fst (program fmt w (start p)) \<in> {Raise (NameError ''c''), Raise KeyboardInterrupt}
      \<and> set (trace (snd (program fmt w (start p)))) \<subseteq> {PygameInit, JoystickInit}
      \<and> printed (trace (snd (program fmt w (start p)))) = []"
    by auto
  with program_None [of fmt w] program_late [of fmt w n] show ?thesis by simp
qed

theorem program_raises_NameError_witness:
  "program (\<lambda>v::string. v) \<lparr>devices = [''X''], batches = [[JOYAXISMOTION 1 ''0.5'']]\<rparr> (start None) =
     (Raise (NameError ''c''), \<lparr>trace = [PygameInit, JoystickInit], pending = None\<rparr>)
   \<and> program (\<lambda>v::string. v) \<lparr>devices = [''X''], batches = [[JOYAXISMOTION 1 ''0.5'']]\<rparr> (start (Some (4 + 3))) =
     (Raise (NameError ''c''), \<lparr>trace = [PygameInit, JoystickInit], pending = Some 4\<rparr>)
   \<and> fst (program (\<lambda>v::string. v) \<lparr>devices = [''X''], batches = [[JOYAXISMOTION 1 ''0.5'']]\<rparr> (start (Some 1)))
        \<in> {Raise (NameError ''c''), Raise KeyboardInterrupt}
   \<and> set (trace (snd (program (\<lambda>v::string. v) \<lparr>devices = [''X''], batches = [[JOYAXISMOTION 1 ''0.5'']]\<rparr> (start (Some 1)))))
        \<subseteq> {PygameInit, JoystickInit}
   \<and> printed (trace (snd (program (\<lambda>v::string. v) \<lparr>devices = [''X''], batches = [[JOYAXISMOTION 1 ''0.5'']]\<rparr> (start (Some 1))))) = []"
  by (rule program_raises_NameError)

subsection \<open>C2: no device\<close>

text \<open>
  C2 says that with no device connected the program prints \<open>No joystick found.\<close> and
  exits normally. The run of the module with an empty device list, evaluated: it raises
  \<open>NameError\<close> at line 5 with nothing printed. Lines 7 and 8, started in the state the
  run had reached, do print the line and return.
\<close>

theorem zero_devices_run:
  "program (\<lambda>v::string. v) \<lparr>devices = [], batches = []\<rparr> (start None) =
     (Raise (NameError ''c''), \<lparr>trace = [PygameInit, JoystickInit], pending = None\<rparr>)
   \<and> device_check (\<lambda>v::string. v) \<lparr>devices = [], batches = []\<rparr>
        \<lparr>trace = [PygameInit, JoystickInit], pending = None\<rparr> =
     (Return (), \<lparr>trace = [PygameInit, JoystickInit, GetCount, Print ''No joystick found.''],
                  pending = None\<rparr>)"
  by (simp add: program_None device_check_zero_None)

subsection \<open>C3: teardown\<close>

text \<open>
  C3 says that every terminating execution calls the teardown, the zero-device path
  included. With no device the module ends at line 5, and lines 7 and 8 started from
  the initial state return normally; neither calls \<open>pygame.quit\<close>.
\<close>

theorem zero_devices_no_teardown:
  "fst (device_check (\<lambda>v::string. v) \<lparr>devices = [], batches = []\<rparr> (start None)) = Return ()
   \<and> trace (snd (device_check (\<lambda>v::string. v) \<lparr>devices = [], batches = []\<rparr> (start None))) =
       [GetCount, Print ''No joystick found.'']
   \<and> PygameQuit \<notin>
       set (trace (snd (device_check (\<lambda>v::string. v) \<lparr>devices = [], batches = []\<rparr> (start None))))
   \<and> fst (program (\<lambda>v::string. v) \<lparr>devices = [], batches = []\<rparr> (start None)) =
       Raise (NameError ''c'')
   \<and> PygameQuit \<notin>
       set (trace (snd (program (\<lambda>v::string. v) \<lparr>devices = [], batches = []\<rparr> (start None))))"
  using program_None [of "\<lambda>v::string. v" "\<lparr>devices = [], batches = []\<rparr>"]
    device_check_zero_None [of "\<lparr>devices = [], batches = []\<rparr>" "start None" "\<lambda>v::string. v"]
  by (simp add: start_def)

text \<open>
  C3, amended. The teardown belongs to the try statement of lines 14 to 35: whenever that
  statement terminates, \<open>pygame.quit\<close> has been called exactly once, as its last step.
  The zero-device branch always terminates, and never calls it.
\<close>

theorem teardown_closes_try:
  "(monitor fmt bs s = (r, s') \<longrightarrow> r \<noteq> Running \<longrightarrow>
      r = Return () \<and> (\<exists>acts. trace s' = trace s @ acts @ [PygameQuit] \<and> PygameQuit \<notin> set acts))
   \<and> (devices w = [] \<longrightarrow>
        fst (device_check fmt w s) \<noteq> Running
        \<and> (\<exists>acts. trace (snd (device_check fmt w s)) = trace s @ acts \<and> PygameQuit \<notin> set acts))"
proof -
  have a: "r = Return () \<and> (\<exists>acts. trace s' = trace s @ acts @ [PygameQuit] \<and> PygameQuit \<notin> set acts)"
    if m: "monitor fmt bs s = (r, s')" and r: "r \<noteq> Running"
  proof (cases "pending s")
    case None
    with m r show ?thesis by (simp add: monitor_None)
  next
    case (Some k)
    let ?acts = "take k (loop_actions fmt bs) @ [Print ''Exiting.'']"
    from Some m r have "r = Return ()" and "trace s' = trace s @ ?acts @ [PygameQuit]"
      by (auto simp: monitor_Some split: if_splits)
    moreover have "PygameQuit \<notin> set ?acts"
      using not_in_take [OF loop_actions_no_Quit, of k fmt bs] by simp
    ultimately show ?thesis by blast
  qed
  have b: "fst (device_check fmt w s) \<noteq> Running" if d: "devices w = []"
    using d by (cases "pending s") (simp_all add: device_check_zero_None device_check_zero_Some)
  have c: "\<exists>acts. trace (snd (device_check fmt w s)) = trace s @ acts \<and> PygameQuit \<notin> set acts"
    if d: "devices w = []"
  proof (cases "pending s")
    case None
    with d show ?thesis by (simp add: device_check_zero_None)
  next
    case (Some k)
    have "PygameQuit \<notin> set (take k [GetCount, Print ''No joystick found.''])"
      by (rule not_in_take) simp
    with d Some show ?thesis by (auto simp: device_check_zero_Some)
  qed
  from a b c show ?thesis by blast
qed

theorem teardown_closes_try_witness:
  "monitor (\<lambda>v::string. v) [[JOYBUTTONDOWN 3]] (start (Some 1)) =
     (Return (), \<lparr>trace = [EventGet, Print ''Exiting.'', PygameQuit], pending = None\<rparr>)
   \<and> Return () \<noteq> (Running :: unit res)
   \<and> (\<exists>acts. [EventGet, Print ''Exiting.'', PygameQuit] = acts @ [PygameQuit] \<and> PygameQuit \<notin> set acts)
   \<and> devices \<lparr>devices = [], batches = [[JOYBUTTONDOWN 3]]\<rparr> = []
   \<and> PygameQuit \<notin> set (trace (snd (device_check (\<lambda>v::string. v)
          \<lparr>devices = [], batches = [[JOYBUTTONDOWN 3]]\<rparr> (start None))))"
proof -
  have m: "monitor (\<lambda>v::string. v) [[JOYBUTTONDOWN 3]] (start (Some 1)) =
     (Return (), \<lparr>trace = [EventGet, Print ''Exiting.'', PygameQuit], pending = None\<rparr>)"
    by (simp add: monitor_Some [of _ 1] start_def loop_actions_def iteration_def)
  from teardown_closes_try [of "\<lambda>v::string. v" "[[JOYBUTTONDOWN 3]]" "start (Some 1)" "Return ()"
      "\<lparr>trace = [EventGet, Print ''Exiting.'', PygameQuit], pending = None\<rparr>"
      "\<lparr>devices = [], batches = [[JOYBUTTONDOWN 3]]\<rparr>"]
    teardown_closes_try [of "\<lambda>v::string. v" "[]" "start None" Running "start None"
      "\<lparr>devices = [], batches = [[JOYBUTTONDOWN 3]]\<rparr>"] m
  show ?thesis by (simp add: start_def)
qed

subsection \<open>C4: interruption inside the loop\<close>

text \<open>
  C4. A device is connected and the interruption arrives while the loop is running: after
  the five steps of lines 7 to 12 and k further steps of the loop, with k less than the
  number of steps the loop takes on the observed batches (one poll per batch, one print
  per event). Then lines 7 to 35 return normally; the steps taken are the 5 + k steps
  before the interruption, which hold neither \<open>Exiting.\<close> nor the teardown, followed
  by exactly \<open>print Exiting.\<close> and \<open>pygame.quit\<close>.
\<close>

theorem interrupt_in_loop:
  assumes "devices w \<noteq> []" and "pending s = Some (5 + k)"
    and "k < length (batches w) + length (concat (batches w))"
  shows "\<exists>acts. device_check fmt w s =
           (Return (), s\<lparr>trace := trace s @ acts @ [Print ''Exiting.'', PygameQuit],
                         pending := None\<rparr>)
         \<and> length acts = 5 + k
         \<and> Print ''Exiting.'' \<notin> set acts \<and> PygameQuit \<notin> set acts"
proof -
  let ?acts = "GetCount # startup_actions w @ take k (loop_actions fmt (batches w))"
  from assms have "device_check fmt w s =
      (Return (), s\<lparr>trace := trace s @ ?acts @ [Print ''Exiting.'', PygameQuit], pending := None\<rparr>)"
    by (simp add: device_check_some_late length_loop_actions)
  moreover from assms(3) have "length ?acts = 5 + k"
    by (simp add: length_startup_actions length_loop_actions)
  moreover have "Print ''Exiting.'' \<notin> set ?acts" "PygameQuit \<notin> set ?acts"
    using startup_no_Exiting [of w] not_in_take [OF loop_actions_no_Exiting, of k fmt "batches w"]
      not_in_take [OF loop_actions_no_Quit, of k fmt "batches w"]
    by auto
  ultimately show ?thesis by blast
qed

theorem interrupt_in_loop_witness:
  "devices \<lparr>devices = [''X''], batches = [[JOYBUTTONDOWN 3], []]\<rparr> \<noteq> [] \<and>
   device_check (\<lambda>v::string. v) \<lparr>devices = [''X''], batches = [[JOYBUTTONDOWN 3], []]\<rparr>
       (start (Some (5 + 2))) =
     (Return (), \<lparr>trace = [GetCount, Joystick 0, JoystickObjInit, GetName,
                            Print ''Connected controller: X'', EventGet, Print ''Button 3 pressed'',
                            Print ''Exiting.'', PygameQuit], pending = None\<rparr>)"
  using interrupt_in_loop [of "\<lparr>devices = [''X''], batches = [[JOYBUTTONDOWN 3], []]\<rparr>"
      "start (Some (5 + 2))" 2 "\<lambda>v::string. v"]
  by (simp add: start_def device_check_some_late [of _ _ 2, simplified] startup_actions_def loop_actions_def iteration_def
      str_int_def digit_def)

subsection \<open>C5: a device is connected\<close>

text \<open>
  C5 says that with a device named X connected the program binds joystick 0 and prints
  \<open>Connected controller: X\<close> before it handles any event. The run of the module with
  one device named X, evaluated: it raises \<open>NameError\<close> at line 5, no device is bound
  and nothing is printed. Lines 7 to 35, started in the state the run had reached, do
  bind joystick 0 and print the name before the first poll.
\<close>

theorem one_device_run:
  "program (\<lambda>v::string. v) \<lparr>devices = [''X''], batches = [[JOYBUTTONDOWN 3]]\<rparr> (start None) =
     (Raise (NameError ''c''), \<lparr>trace = [PygameInit, JoystickInit], pending = None\<rparr>)
   \<and> device_check (\<lambda>v::string. v) \<lparr>devices = [''X''], batches = [[JOYBUTTONDOWN 3]]\<rparr>
        \<lparr>trace = [PygameInit, JoystickInit], pending = None\<rparr> =
     (Running, \<lparr>trace = [PygameInit, JoystickInit, GetCount, Joystick 0, JoystickObjInit, GetName,
                         Print ''Connected controller: X'', EventGet, Print ''Button 3 pressed''],
                pending = None\<rparr>)"
  by (simp add: program_None device_check_some_None
      startup_actions_def loop_actions_def iteration_def str_int_def digit_def)

subsection \<open>C6: axis motion\<close>

text \<open>
  C6. In the loop, with no interruption, handling one more axis-motion event with axis a
  and value v (the last event of the last batch) adds exactly one step to the trace of
  the loop without it: the print of \<open>Axis a moved to v\<close>, a in decimal and v as
  Python writes the float.
\<close>

theorem axis_event_line:
  assumes "pending s = None"
  shows "while_true fmt (bs @ [es @ [JOYAXISMOTION a v]]) s =
           (Running, (snd (while_true fmt (bs @ [es]) s))
              \<lparr>trace := trace (snd (while_true fmt (bs @ [es]) s))
                 @ [Print (''Axis '' @ str_int a @ '' moved to '' @ fmt v)]\<rparr>)"
  using assms by (simp add: while_true_None loop_actions_snoc)

theorem axis_event_line_witness:
  "pending (start None) = None \<and>
   while_true (\<lambda>v::string. v) [[OtherEvent 1540], [JOYBUTTONUP 2, JOYAXISMOTION 1 ''0.5'']] (start None) =
     (Running, \<lparr>trace = [EventGet, Print ''Waiting'', EventGet, Print ''Button 2 released'',
                          Print ''Axis 1 moved to 0.5''], pending = None\<rparr>)"
  using axis_event_line [of "start None" "\<lambda>v::string. v" "[[OtherEvent 1540]]" "[JOYBUTTONUP 2]" 1 "''0.5''"]
  by (simp add: start_def while_true_None loop_actions_def iteration_def str_int_def digit_def
      del: while_true.simps)

subsection \<open>C7: buttons\<close>

text \<open>
  C7. In the loop, with no interruption, handling one more button-down event with
  button b adds exactly the print of \<open>Button b pressed\<close>, and one more button-up event
  exactly the print of \<open>Button b released\<close>.
\<close>

theorem button_event_lines:
  assumes "pending s = None"
  shows "while_true fmt (bs @ [es @ [JOYBUTTONDOWN b]]) s =
           (Running, (snd (while_true fmt (bs @ [es]) s))
              \<lparr>trace := trace (snd (while_true fmt (bs @ [es]) s))
                 @ [Print (''Button '' @ str_int b @ '' pressed'')]\<rparr>)
       \<and> while_true fmt (bs @ [es @ [JOYBUTTONUP b]]) s =
           (Running, (snd (while_true fmt (bs @ [es]) s))
              \<lparr>trace := trace (snd (while_true fmt (bs @ [es]) s))
                 @ [Print (''Button '' @ str_int b @ '' released'')]\<rparr>)"
  using assms by (simp add: while_true_None loop_actions_snoc)

theorem button_event_lines_witness:
  "pending (start None) = None \<and>
   while_true (\<lambda>v::string. v) [[JOYAXISMOTION 0 ''-1.0''], [JOYBUTTONDOWN 3]] (start None) =
     (Running, \<lparr>trace = [EventGet, Print ''Axis 0 moved to -1.0'', EventGet,
                          Print ''Button 3 pressed''], pending = None\<rparr>) \<and>
   while_true (\<lambda>v::string. v) [[JOYAXISMOTION 0 ''-1.0''], [JOYBUTTONUP 3]] (start None) =
     (Running, \<lparr>trace = [EventGet, Print ''Axis 0 moved to -1.0'', EventGet,
                          Print ''Button 3 released''], pending = None\<rparr>)"
  using button_event_lines [of "start None" "\<lambda>v::string. v" "[[JOYAXISMOTION 0 ''-1.0'']]" "[]" 3]
  by (simp add: start_def while_true_None loop_actions_def iteration_def str_int_def digit_def
      del: while_true.simps)

subsection \<open>C8: any other event\<close>

text \<open>
  C8. In the loop, with no interruption, handling one more event of any other kind adds
  exactly the print of \<open>Waiting\<close>; and for an event e of any kind whatever, handling
  it adds exactly one print.
\<close>

theorem other_event_waiting:
  assumes "pending s = None"
  shows "while_true fmt (bs @ [es @ [OtherEvent t]]) s =
           (Running, (snd (while_true fmt (bs @ [es]) s))
              \<lparr>trace := trace (snd (while_true fmt (bs @ [es]) s)) @ [Print ''Waiting'']\<rparr>)
       \<and> (\<exists>line. while_true fmt (bs @ [es @ [e]]) s =
           (Running, (snd (while_true fmt (bs @ [es]) s))
              \<lparr>trace := trace (snd (while_true fmt (bs @ [es]) s)) @ [Print line]\<rparr>))"
proof -
  have "while_true fmt (bs @ [es @ [e']]) s =
           (Running, (snd (while_true fmt (bs @ [es]) s))
              \<lparr>trace := trace (snd (while_true fmt (bs @ [es]) s)) @ [Print (message fmt e')]\<rparr>)"
    for e'
    using assms by (simp add: while_true_None loop_actions_snoc)
  from this [of "OtherEvent t"] this [of e] show ?thesis by auto
qed

theorem other_event_waiting_witness:
  "pending (start None) = None \<and>
   while_true (\<lambda>v::string. v) [[JOYBUTTONDOWN 0, OtherEvent 1538]] (start None) =
     (Running, \<lparr>trace = [EventGet, Print ''Button 0 pressed'', Print ''Waiting''],
                pending = None\<rparr>)"
  using other_event_waiting [of "start None" "\<lambda>v::string. v" "[]" "[JOYBUTTONDOWN 0]" 1538]
  by (simp add: start_def while_true_None loop_actions_def iteration_def str_int_def digit_def
      del: while_true.simps)

subsection \<open>C9: the loop has no exit\<close>

text \<open>
  C9. With no interruption, for every list of observed batches the loop, and the try
  statement around it, are still running when the batches are used up: they neither
  return nor raise. The steps taken are one poll per batch, empty or not, and one print
  per event, with no \<open>Exiting.\<close> and no teardown among them; n polls that find the
  queue empty are n polls in a row with nothing between them.
\<close>

theorem loop_never_exits:
  assumes "pending s = None"
  shows "while_true fmt bs s = (Running, s\<lparr>trace := trace s @ loop_actions fmt bs\<rparr>)
       \<and> monitor fmt bs s = (Running, s\<lparr>trace := trace s @ loop_actions fmt bs\<rparr>)
       \<and> count_list (loop_actions fmt bs) EventGet = length bs
       \<and> length (printed (loop_actions fmt bs)) = length (concat bs)
       \<and> Print ''Exiting.'' \<notin> set (loop_actions fmt bs)
       \<and> PygameQuit \<notin> set (loop_actions fmt bs)
       \<and> loop_actions fmt (replicate n []) = replicate n EventGet"
proof -
  have "loop_actions fmt (replicate n []) = replicate n EventGet"
    by (induction n) (simp_all add: loop_actions_def iteration_def)
  with assms show ?thesis
    by (simp add: while_true_None monitor_None count_EventGet printed_loop_actions
        loop_actions_no_Exiting loop_actions_no_Quit)
qed

theorem loop_never_exits_witness:
  "pending (start None) = None \<and>
   monitor (\<lambda>v::string. v) [[], [JOYBUTTONUP 7], []] (start None) =
     (Running, \<lparr>trace = [EventGet, EventGet, Print ''Button 7 released'', EventGet],
                pending = None\<rparr>)"
  using loop_never_exits [of "start None" "\<lambda>v::string. v" "[[], [JOYBUTTONUP 7], []]" 0]
  by (simp add: start_def loop_actions_def iteration_def str_int_def digit_def)

subsection \<open>C10: interruption before the try statement\<close>

text \<open>
  C10. A device is connected and the interruption arrives at one of the four steps of
  lines 10 to 12 (binding joystick 0, initialising it, asking its name, printing the
  name), that is after the count was read and k of these steps, k below 4. Then lines 7
  to 35 end with \<open>KeyboardInterrupt\<close> unhandled; the steps taken are the count and
  the first k of the four, with no poll, no \<open>Exiting.\<close> and no teardown.
\<close>

theorem interrupt_before_try:
  assumes "devices w \<noteq> []" and "pending s = Some (Suc k)" and "k < 4"
  shows "\<exists>acts. device_check fmt w s =
           (Raise KeyboardInterrupt, s\<lparr>trace := trace s @ acts, pending := None\<rparr>)
         \<and> acts = GetCount # take k [Joystick 0, JoystickObjInit, GetName,
                                      Print (''Connected controller: '' @ devices w ! 0)]
         \<and> Print ''Exiting.'' \<notin> set acts \<and> PygameQuit \<notin> set acts \<and> EventGet \<notin> set acts"
proof -
  let ?acts = "take (Suc k) (GetCount # startup_actions w)"
  from assms have "device_check fmt w s =
      (Raise KeyboardInterrupt, s\<lparr>trace := trace s @ ?acts, pending := None\<rparr>)"
    by (simp add: device_check_some_early del: take_Suc_Cons)
  moreover have "?acts = GetCount # take k [Joystick 0, JoystickObjInit, GetName,
                                      Print (''Connected controller: '' @ devices w ! 0)]"
    by (simp add: startup_actions_def)
  moreover have "Print ''Exiting.'' \<notin> set ?acts" "PygameQuit \<notin> set ?acts" "EventGet \<notin> set ?acts"
    using startup_no_Exiting [of w] by (blast dest: in_set_takeD)+
  ultimately show ?thesis by metis
qed

theorem interrupt_before_try_witness:
  "devices \<lparr>devices = [''X''], batches = [[JOYBUTTONDOWN 3]]\<rparr> \<noteq> [] \<and> (3::nat) < 4 \<and>
   device_check (\<lambda>v::string. v) \<lparr>devices = [''X''], batches = [[JOYBUTTONDOWN 3]]\<rparr>
       (start (Some (Suc 3))) =
     (Raise KeyboardInterrupt,
      \<lparr>trace = [GetCount, Joystick 0, JoystickObjInit, GetName], pending = None\<rparr>)"
  using interrupt_before_try [of "\<lparr>devices = [''X''], batches = [[JOYBUTTONDOWN 3]]\<rparr>"
      "start (Some (Suc 3))" 3 "\<lambda>v::string. v"]
  by (simp add: start_def)

end
